theory Spec2Isabelle
  imports Complex_Main "HOL-Library.AList"
begin

section \<open>JavaScript strings\<close>

text \<open>
  A JavaScript string is modelled as a \<^typ>\<open>string\<close>: a list of code units, each below 256.
  The character classes below are the ones the source's regular expressions and
  \<^verbatim>\<open>String.prototype.trim\<close> use, restricted to that range:
  \<^verbatim>\<open>\d\<close> is \<^verbatim>\<open>[0-9]\<close>, \<^verbatim>\<open>[a-zA-Z0-9]\<close> is the ASCII letters and digits, and
  \<^verbatim>\<open>\s\<close> is tab, line feed, vertical tab, form feed, carriage return, space and the
  no-break space.
\<close>

definition digitChars :: string where
  "digitChars = ''0123456789''"

definition lowerChars :: string where
  "lowerChars = ''abcdefghijklmnopqrstuvwxyz''"

definition upperChars :: string where
  "upperChars = ''ABCDEFGHIJKLMNOPQRSTUVWXYZ''"

definition isDigit :: "char \<Rightarrow> bool" where
  "isDigit c = (c \<in> set digitChars)"

definition isAlnum :: "char \<Rightarrow> bool" where
  "isAlnum c = (c \<in> set lowerChars \<or> c \<in> set upperChars \<or> c \<in> set digitChars)"

definition isSpace :: "char \<Rightarrow> bool" where
  "isSpace c = (c \<in> set [CHR 0x09, CHR 0x0A, CHR 0x0B, CHR 0x0C, CHR 0x0D, CHR 0x20, CHR 0xA0])"

text \<open>\<^verbatim>\<open>s.trim()\<close>: white space removed from both ends.\<close>

definition trim :: "string \<Rightarrow> string" where
  "trim s = rev (dropWhile isSpace (rev (dropWhile isSpace s)))"

text \<open>\<^verbatim>\<open>s.toLowerCase()\<close> on code units below 256: the ASCII capitals, and the Latin-1
  capitals \<open>0xC0\<close> to \<open>0xDE\<close> other than the multiplication sign \<open>0xD7\<close>, move up by
  \<open>0x20\<close>; every other code unit stays.\<close>

definition toLowerChar :: "char \<Rightarrow> char" where
  "toLowerChar c =
     (case map_of (zip upperChars lowerChars) c of
        Some l \<Rightarrow> l
      | None \<Rightarrow>
          (let n = (of_char c :: nat)
           in if 192 \<le> n \<and> n \<le> 222 \<and> n \<noteq> 215 then char_of (n + 32) else c))"

definition toLowerCase :: "string \<Rightarrow> string" where
  "toLowerCase s = map toLowerChar s"

text \<open>\<^verbatim>\<open>s.replace(/\s+/g, '_')\<close>: every maximal run of white space becomes one underscore.\<close>

function replaceSpaceRuns :: "string \<Rightarrow> string" where
  "replaceSpaceRuns [] = []"
| "replaceSpaceRuns (c # cs) =
     (if isSpace c then CHR ''_'' # replaceSpaceRuns (dropWhile isSpace cs)
      else c # replaceSpaceRuns cs)"
  by pat_completeness auto
termination
  by (relation "measure length") (auto simp: le_imp_less_Suc length_dropWhile_le)

text \<open>\<^verbatim>\<open>s.replace(/[^a-zA-Z0-9]/g, '_')\<close>: every code unit that is not an ASCII letter or
  digit becomes an underscore.\<close>

definition replaceNonAlnum :: "string \<Rightarrow> string" where
  "replaceNonAlnum s = map (\<lambda>c. if isAlnum c then c else CHR ''_'') s"

text \<open>Decimal digits of a natural number (\<^verbatim>\<open>n.toString()\<close>, template literals) and
  \<^verbatim>\<open>parseInt(ds, 10)\<close> on a string of digits. The source's numbers are doubles: both are
  exact below \<open>2 ^ 53\<close>.\<close>

fun natToString :: "nat \<Rightarrow> string" where
  "natToString n =
     (if n < 10 then [digitChars ! n] else natToString (n div 10) @ [digitChars ! (n mod 10)])"

definition digitValue :: "char \<Rightarrow> nat" where
  "digitValue c = length (takeWhile (\<lambda>d. d \<noteq> c) digitChars)"

definition parseInt :: "string \<Rightarrow> nat" where
  "parseInt ds = foldl (\<lambda>n c. 10 * n + digitValue c) 0 ds"

section \<open>Configuration\<close>

record app_config =
  baseUrl :: string
  minValidationScore :: nat
  defaultMaxTreasures :: nat

definition config :: app_config where
  "config = \<lparr> baseUrl = ''https://13d6f2ae3427.ngrok-free.app'',
              minValidationScore = 75,
              defaultMaxTreasures = 5 \<rparr>"

section \<open>File names\<close>

text \<open>The validate-and-upload endpoint: \<^verbatim>\<open>imageFileName\<close>.\<close>

definition imageFileName :: "string \<Rightarrow> string" where
  "imageFileName imageName = replaceNonAlnum imageName @ ''.png''"

text \<open>The workflow's record: \<^verbatim>\<open>fileName: `${name}.png`\<close>.\<close>

definition recordFileName :: "string \<Rightarrow> string" where
  "recordFileName name = name @ ''.png''"

section \<open>The validate-and-upload endpoint\<close>

text \<open>
  The handler of \<^verbatim>\<open>/api/validate-and-upload-image\<close>. Everything outside the handler is an
  input of the model: the parsed multipart form, what running the validator gave, and what
  the remote asset store answered to the upload. The handler's answer is its HTTP status
  with the JSON body, together with the upload request it sent, if any.
  Console logging, the reachability probe of the remote server and the removal of the
  temporary file have no influence on the answer (each failure is caught) and are left out.
\<close>

record form_fields =
  image_field :: "string option"    \<comment> \<open>\<^verbatim>\<open>image.filepath\<close> of the uploaded file, if present\<close>
  imageName_field :: "string option"
  latitude_field :: "string option"
  longitude_field :: "string option"

datatype http_request =
  OtherMethod                       \<comment> \<open>\<^verbatim>\<open>req.method !== 'POST'\<close>\<close>
| PostUnparsable                    \<comment> \<open>\<^verbatim>\<open>form.parse\<close> (or the temp directory) throws\<close>
| Post form_fields

text \<open>Running \<^verbatim>\<open>arcoreimg eval-img\<close>: \<^verbatim>\<open>execAsync\<close> rejects (tool missing, non-zero exit,
  killed), or resolves with the two output streams.\<close>

datatype validator_outcome =
  ExecFailed
| ExecOutput string string          \<comment> \<open>stdout, stderr\<close>

text \<open>The answer of the remote asset store: the request throws (also when the image
  cannot be read), or a status arrives; a 2xx body either parses as JSON with an
  optional \<^verbatim>\<open>url\<close>, or does not parse.\<close>

datatype upload_outcome =
  UploadThrows
| UploadRejected
| UploadOkJson "string option"
| UploadOkText

record upload_request =
  filename :: string
  imageName_sent :: string
  latitude_sent :: string
  longitude_sent :: string
  validationScore_sent :: string

record ValidationResult =
  success :: bool
  score :: "nat option"
  error :: "string option"
  uploadUrl :: "string option"

text \<open>\<^verbatim>\<open>/score[:\s]+(\d+)/i\<close> anchored at the head of the string: the captured digits.
  The separator class and the digits are disjoint, so the greedy match is the only one.\<close>

definition isScoreSep :: "char \<Rightarrow> bool" where
  "isScoreSep c = (c = CHR '':'' \<or> isSpace c)"

definition scoreMatchHere :: "string \<Rightarrow> string option" where
  "scoreMatchHere s =
     (if toLowerCase (take 5 s) = ''score'' then
        (let rest = drop 5 s;
             seps = takeWhile isScoreSep rest;
             ds = takeWhile isDigit (dropWhile isScoreSep rest)
         in if seps \<noteq> [] \<and> ds \<noteq> [] then Some ds else None)
      else None)"

text \<open>\<^verbatim>\<open>s.match(/score[:\s]+(\d+)/i)\<close>: the leftmost match.\<close>

fun scoreMatch :: "string \<Rightarrow> string option" where
  "scoreMatch [] = None"
| "scoreMatch (c # cs) =
     (case scoreMatchHere (c # cs) of Some ds \<Rightarrow> Some ds | None \<Rightarrow> scoreMatch cs)"

text \<open>\<^verbatim>\<open>s.match(/(\d+)/)\<close>: the first maximal run of digits.\<close>

definition numberMatch :: "string \<Rightarrow> string option" where
  "numberMatch s =
     (let ds = takeWhile isDigit (dropWhile (\<lambda>c. \<not> isDigit c) s)
      in if ds = [] then None else Some ds)"

text \<open>\<^verbatim>\<open>a || b\<close> on two match results.\<close>

definition orElse :: "'a option \<Rightarrow> 'a option \<Rightarrow> 'a option" where
  "orElse a b = (case a of Some v \<Rightarrow> Some v | None \<Rightarrow> b)"

text \<open>Step 1 of the handler: \<^verbatim>\<open>validationScore\<close> starts at 0; the \<^verbatim>\<open>catch\<close> branch sets
  the fallback 85.\<close>

definition extractScore :: "validator_outcome \<Rightarrow> nat" where
  "extractScore v =
     (case v of
        ExecFailed \<Rightarrow> 85
      | ExecOutput stdout stderr \<Rightarrow>
          (case orElse (scoreMatch stdout) (scoreMatch stderr) of
             Some ds \<Rightarrow> parseInt ds
           | None \<Rightarrow>
               (case orElse (numberMatch stdout) (numberMatch stderr) of
                  Some ds \<Rightarrow> parseInt ds
                | None \<Rightarrow> 0)))"

text \<open>\<^verbatim>\<open>s || d\<close> on an optional string: the empty string is falsy.\<close>

definition strOr :: "string option \<Rightarrow> string \<Rightarrow> string" where
  "strOr s d = (case s of None \<Rightarrow> d | Some v \<Rightarrow> if v = [] then d else v)"

text \<open>Step 2: the upload, attempted only when the score reaches the threshold.\<close>

definition uploadRequest :: "form_fields \<Rightarrow> string \<Rightarrow> nat \<Rightarrow> upload_request" where
  "uploadRequest f name validationScore =
     \<lparr> filename = imageFileName name,
       imageName_sent = name,
       latitude_sent = strOr (latitude_field f) ''0'',
       longitude_sent = strOr (longitude_field f) ''0'',
       validationScore_sent = natToString validationScore \<rparr>"

definition uploadedUrl :: "app_config \<Rightarrow> string \<Rightarrow> upload_outcome \<Rightarrow> string" where
  "uploadedUrl cfg name u =
     (case u of
        UploadThrows \<Rightarrow> []
      | UploadRejected \<Rightarrow> []
      | UploadOkJson url \<Rightarrow> strOr url (baseUrl cfg @ ''/images/'' @ imageFileName name)
      | UploadOkText \<Rightarrow> baseUrl cfg @ ''/images/'' @ imageFileName name)"

definition belowThresholdMessage :: "app_config \<Rightarrow> nat \<Rightarrow> string" where
  "belowThresholdMessage cfg validationScore =
     ''Image quality score ('' @ natToString validationScore
       @ '') is below the required threshold of '' @ natToString (minValidationScore cfg)
       @ ''. Please capture an image with more visual features, better contrast, and sharper details.''"

definition validateHandler ::
  "app_config \<Rightarrow> http_request \<Rightarrow> validator_outcome \<Rightarrow> upload_outcome
     \<Rightarrow> (nat \<times> ValidationResult) \<times> upload_request list" where
  "validateHandler cfg req v u =
     (case req of
        OtherMethod \<Rightarrow>
          ((405, \<lparr> success = False, score = None, error = Some ''Method not allowed'',
                   uploadUrl = None \<rparr>), [])
      | PostUnparsable \<Rightarrow>
          ((500, \<lparr> success = False, score = None,
                   error = Some ''Failed to process image. Please try again.'',
                   uploadUrl = None \<rparr>), [])
      | Post f \<Rightarrow>
          (if image_field f = None \<or> strOr (imageName_field f) [] = [] then
             ((400, \<lparr> success = False, score = None,
                      error = Some ''Missing image or image name'', uploadUrl = None \<rparr>), [])
           else
             (let name = strOr (imageName_field f) [];
                  validationScore = extractScore v;
                  passed = (validationScore \<ge> minValidationScore cfg);
                  url = (if passed then uploadedUrl cfg name u else [])
              in ((200, \<lparr> success = passed,
                          score = Some validationScore,
                          error = (if validationScore < minValidationScore cfg
                                   then Some (belowThresholdMessage cfg validationScore)
                                   else None),
                          uploadUrl = (if url = [] then None else Some url) \<rparr>),
                  (if passed then [uploadRequest f name validationScore] else [])))))"

section \<open>Treasure records\<close>

text \<open>\<^verbatim>\<open>interface TreasureData\<close>, the same in every file that declares it. Numbers that are
  not counters are modelled as reals; the vectors are triples \<open>(x, y, z)\<close>.\<close>

type_synonym vec3 = "real \<times> real \<times> real"

record TreasureData =
  imageName :: string
  fileName :: string
  physicalSizeInMeters :: real
  clueIndex :: nat
  clueName :: string
  spawnOffset :: vec3
  spawnRotation :: vec3
  clueText :: string
  latitude :: real
  longitude :: real
  hasPhysicalGame :: bool
  physicalGameInstruction :: string
  physicalGameSecretCode :: string

text \<open>\<^verbatim>\<open>interface WebConfig\<close> (\<^verbatim>\<open>TreasureConfig\<close> in the dashboard).\<close>

record WebConfig =
  images :: "TreasureData list"
  lastUpdated :: string
  totalTreasures :: nat

section \<open>The authoring page\<close>

text \<open>
  The component \<^verbatim>\<open>HideTreasures\<close>: its React state is a record, each handler a function from
  the state to the new state and the list of things it did to the outside (alerts, confirm
  dialogs, requests to the API routes), in order. Values the browser supplies are inputs.
  Console output and the on-screen debug log are left out. A handler's function gives the
  state the handler itself ends in; the effect that React runs afterwards when the handler
  has changed the step is \<open>afterStepChange\<close>, defined further down.
\<close>

datatype PageStep = Setup | Capture | Crop | Processing | ClueBuilder | Complete

record GPSCoordinates =
  latitude_gps :: real
  longitude_gps :: real

text \<open>The object passed to \<^verbatim>\<open>setCurrentTreasure\<close>: the nine fields known after validation.\<close>

record PartialTreasure =
  imageName_p :: string
  fileName_p :: string
  physicalSizeInMeters_p :: real
  clueIndex_p :: nat
  clueName_p :: string
  spawnOffset_p :: vec3
  spawnRotation_p :: vec3
  latitude_p :: real
  longitude_p :: real

record page_state =
  currentStep :: PageStep
  treasureCount :: nat
  maxTreasures :: nat
  currentLocation :: "GPSCoordinates option"
  treasures :: "TreasureData list"
  capturedImage :: "string option"
  croppedImage :: "string option"
  imageName_st :: string
  isProcessing :: bool
  validationScore :: "nat option"
  capturedImageBackup :: "string option"
  isNamingImage :: bool
  tempImageData :: "string option"
  currentTreasure :: "PartialTreasure option"
  clueText_st :: string
  hasPhysicalGame_st :: bool
  physicalInstruction :: string
  secretCode :: string

definition initialState :: "app_config \<Rightarrow> page_state" where
  "initialState cfg =
     \<lparr> currentStep = Setup, treasureCount = 0, maxTreasures = defaultMaxTreasures cfg,
       currentLocation = None, treasures = [], capturedImage = None, croppedImage = None,
       imageName_st = [], isProcessing = False, validationScore = None,
       capturedImageBackup = None, isNamingImage = False, tempImageData = None,
       currentTreasure = None, clueText_st = [], hasPhysicalGame_st = False,
       physicalInstruction = [], secretCode = [] \<rparr>"

text \<open>The multipart form the page posts to \<^verbatim>\<open>/api/validate-and-upload-image\<close>.\<close>

record client_form =
  image_filename :: string
  imageName_form :: string
  latitude_form :: string
  longitude_form :: string

datatype effect =
  Alert string
| Confirm string
| ValidateRequest client_form
| UpdateWebConfigRequest "TreasureData list"

text \<open>What the \<^verbatim>\<open>try\<close> block of \<^verbatim>\<open>validateAndUploadImage\<close> meets: turning the data URL
  into a blob throws, the request to the API route throws (or its body is not JSON), or the
  route's JSON answer arrives. The function sets \<^verbatim>\<open>isProcessing\<close> on entry and clears it in
  its \<^verbatim>\<open>finally\<close> block, so it is cleared in the state the function ends in.\<close>

datatype api_outcome =
  BlobThrows
| FetchThrows
| Answered ValidationResult

text \<open>\<^verbatim>\<open>currentLocation?.latitude.toString() || '0'\<close>. The text of a number is never empty,
  so the default applies exactly when there is no location. \<open>numToString\<close> is
  \<^verbatim>\<open>Number.prototype.toString\<close>, a parameter of the model.\<close>

definition coordText ::
  "(real \<Rightarrow> string) \<Rightarrow> (GPSCoordinates \<Rightarrow> real) \<Rightarrow> GPSCoordinates option \<Rightarrow> string" where
  "coordText numToString sel loc =
     (case loc of None \<Rightarrow> ''0''
      | Some g \<Rightarrow> if numToString (sel g) = [] then ''0'' else numToString (sel g))"

text \<open>\<^verbatim>\<open>currentLocation?.latitude || 0\<close>.\<close>

definition coordValue :: "(GPSCoordinates \<Rightarrow> real) \<Rightarrow> GPSCoordinates option \<Rightarrow> real" where
  "coordValue sel loc = (case loc of None \<Rightarrow> 0 | Some g \<Rightarrow> if sel g = 0 then 0 else sel g)"

definition validationForm ::
  "(real \<Rightarrow> string) \<Rightarrow> page_state \<Rightarrow> string \<Rightarrow> client_form" where
  "validationForm numToString st name =
     \<lparr> image_filename = name @ ''.png'',
       imageName_form = name,
       latitude_form = coordText numToString latitude_gps (currentLocation st),
       longitude_form = coordText numToString longitude_gps (currentLocation st) \<rparr>"

definition newPartialTreasure :: "page_state \<Rightarrow> string \<Rightarrow> PartialTreasure" where
  "newPartialTreasure st name =
     \<lparr> imageName_p = ''clue_'' @ natToString (treasureCount st) @ ''_''
                        @ replaceSpaceRuns (toLowerCase name),
       fileName_p = recordFileName name,
       physicalSizeInMeters_p = 0.15,
       clueIndex_p = treasureCount st,
       clueName_p = name,
       spawnOffset_p = (0, 0, 0),
       spawnRotation_p = (0, 0, 0),
       latitude_p = coordValue latitude_gps (currentLocation st),
       longitude_p = coordValue longitude_gps (currentLocation st) \<rparr>"

text \<open>\<^verbatim>\<open>result.success && result.score && result.score > config.arcore.minValidationScore\<close>:
  a missing score and the score 0 are falsy.\<close>

definition accepted :: "app_config \<Rightarrow> ValidationResult \<Rightarrow> bool" where
  "accepted cfg result =
     (success result \<and>
      (case score result of None \<Rightarrow> False
       | Some s \<Rightarrow> s \<noteq> 0 \<and> s > minValidationScore cfg))"

definition validationFailedMessage :: "ValidationResult \<Rightarrow> string" where
  "validationFailedMessage result =
     ''Image validation failed. Score: ''
       @ (case score result of None \<Rightarrow> ''Unknown''
          | Some s \<Rightarrow> if s = 0 then ''Unknown'' else natToString s)
       @ ''. Please capture a new image with more visual features.''"

definition validateAndUploadImage ::
  "(real \<Rightarrow> string) \<Rightarrow> app_config \<Rightarrow> api_outcome \<Rightarrow> page_state \<Rightarrow> string \<Rightarrow> string
     \<Rightarrow> page_state \<times> effect list" where
  "validateAndUploadImage numToString cfg api st imageData name =
     (let request = ValidateRequest (validationForm numToString st name);
          failed = ''Failed to process image. Please try again.''
      in case api of
           BlobThrows \<Rightarrow>
             (st\<lparr> currentStep := Capture, isProcessing := False \<rparr>, [Alert failed])
         | FetchThrows \<Rightarrow>
             (st\<lparr> currentStep := Capture, isProcessing := False \<rparr>, [request, Alert failed])
         | Answered result \<Rightarrow>
             (if accepted cfg result then
                (st\<lparr> validationScore := score result,
                     currentTreasure := Some (newPartialTreasure st name),
                     currentStep := ClueBuilder,
                     isProcessing := False \<rparr>, [request])
              else
                (st\<lparr> currentStep := Capture, isProcessing := False \<rparr>,
                 [request, Alert (validationFailedMessage result)])))"

text \<open>What \<^verbatim>\<open>cropImage\<close> meets in the browser: whether the canvas element and its 2D
  context exist, and how loading and drawing the image ends. The pixels of the cropped
  image are the browser's work; the data URL it returns is an input.\<close>

datatype image_load =
  LoadError
| DrawThrows
| Cropped string

record crop_env =
  canvasAvailable :: bool
  contextAvailable :: bool
  imageLoad :: image_load

text \<open>Truthiness of \<^verbatim>\<open>string | null\<close>, and \<^verbatim>\<open>a || b || c\<close> on such values.\<close>

definition truthyStr :: "string option \<Rightarrow> bool" where
  "truthyStr s = (case s of None \<Rightarrow> False | Some v \<Rightarrow> v \<noteq> [])"

definition firstTruthy :: "string option \<Rightarrow> string option \<Rightarrow> string option \<Rightarrow> string option" where
  "firstTruthy a b c = (if truthyStr a then a else if truthyStr b then b else c)"

definition restoreImages :: "string option \<Rightarrow> page_state \<Rightarrow> page_state" where
  "restoreImages imageToUse st =
     st\<lparr> capturedImage := (if \<not> truthyStr (capturedImage st) then imageToUse
                            else capturedImage st),
         capturedImageBackup := (if \<not> truthyStr (capturedImageBackup st) then imageToUse
                                  else capturedImageBackup st),
         tempImageData := (if \<not> truthyStr (tempImageData st) then imageToUse
                            else tempImageData st) \<rparr>"

definition cropImage ::
  "(real \<Rightarrow> string) \<Rightarrow> app_config \<Rightarrow> crop_env \<Rightarrow> api_outcome \<Rightarrow> page_state
     \<Rightarrow> page_state \<times> effect list" where
  "cropImage numToString cfg env api st =
     (if imageName_st st = [] \<or> trim (imageName_st st) = [] then
        (st, [Alert ''Please enter a name for the treasure marker before cropping.''])
      else
        (let imageToUse = firstTruthy (capturedImage st) (capturedImageBackup st)
                            (tempImageData st)
         in if \<not> truthyStr imageToUse \<or> \<not> canvasAvailable env then
              (st, [Alert ''Missing image data for cropping. Please capture an image first.''])
            else
              (let st1 = restoreImages imageToUse st
               in if \<not> contextAvailable env then
                    (st1, [Alert ''Canvas error. Please refresh the page and try again.''])
                  else
                    (case imageLoad env of
                       LoadError \<Rightarrow>
                         (st1, [Alert ''Failed to load image for cropping. Please try again.''])
                     | DrawThrows \<Rightarrow>
                         (st1, [Alert ''Failed to crop image. Please try again.''])
                     | Cropped croppedData \<Rightarrow>
                         validateAndUploadImage numToString cfg api
                           (st1\<lparr> croppedImage := Some croppedData,
                                 currentStep := Processing \<rparr>)
                           croppedData (imageName_st st)))))"

definition resetForNextTreasure :: "page_state \<Rightarrow> page_state" where
  "resetForNextTreasure st =
     st\<lparr> capturedImage := None, croppedImage := None, capturedImageBackup := None,
         tempImageData := None, imageName_st := [], isNamingImage := False,
         validationScore := None, currentTreasure := None, clueText_st := [],
         hasPhysicalGame_st := False, physicalInstruction := [], secretCode := [] \<rparr>"

definition completeTreasure :: "page_state \<Rightarrow> PartialTreasure \<Rightarrow> TreasureData" where
  "completeTreasure st p =
     \<lparr> imageName = imageName_p p,
       fileName = fileName_p p,
       physicalSizeInMeters = physicalSizeInMeters_p p,
       clueIndex = clueIndex_p p,
       clueName = clueName_p p,
       spawnOffset = spawnOffset_p p,
       spawnRotation = spawnRotation_p p,
       clueText = trim (clueText_st st),
       latitude = latitude_p p,
       longitude = longitude_p p,
       hasPhysicalGame = hasPhysicalGame_st st,
       physicalGameInstruction = (if hasPhysicalGame_st st then physicalInstruction st else []),
       physicalGameSecretCode = (if hasPhysicalGame_st st then secretCode st else []) \<rparr>"

text \<open>\<^verbatim>\<open>saveClueAndContinue\<close>. \<open>continueHiding\<close> is the operator's answer to the confirm
  dialog. The request to \<^verbatim>\<open>/api/update-web-config\<close> is awaited inside a \<^verbatim>\<open>try\<close>; whatever
  its outcome, the function goes on in the same way.\<close>

definition saveClueAndContinue :: "bool \<Rightarrow> page_state \<Rightarrow> page_state \<times> effect list" where
  "saveClueAndContinue continueHiding st =
     (case currentTreasure st of
        None \<Rightarrow> (st, [Alert ''Please enter clue text before continuing.''])
      | Some p \<Rightarrow>
          (if trim (clueText_st st) = [] then
             (st, [Alert ''Please enter clue text before continuing.''])
           else
             (let newTreasures = treasures st @ [completeTreasure st p];
                  newCount = treasureCount st + 1;
                  st1 = st\<lparr> treasures := newTreasures, treasureCount := newCount \<rparr>;
                  question =
                    ''Treasure saved successfully! Do you want to hide another treasure?''
              in if newCount \<ge> maxTreasures st then
                   (st1\<lparr> currentStep := Complete \<rparr>, [UpdateWebConfigRequest newTreasures])
                 else if continueHiding then
                   ((resetForNextTreasure st1)\<lparr> currentStep := Capture \<rparr>,
                    [UpdateWebConfigRequest newTreasures, Confirm question])
                 else
                   (st1\<lparr> currentStep := Complete \<rparr>,
                    [UpdateWebConfigRequest newTreasures, Confirm question]))))"

section \<open>The configuration publisher\<close>

text \<open>
  The handler of \<^verbatim>\<open>/api/update-web-config\<close>. The two files it writes are the state; the
  clock, the working directory (through the path of the local file), whether each write
  succeeds and what the remote endpoint answers are inputs.
  A write that fails leaves its file as it was.
\<close>

datatype remote_answer =
  Throws                            \<comment> \<open>the request itself fails\<close>
| NotOk                             \<comment> \<open>a status outside 2xx\<close>
| OkJson                            \<comment> \<open>2xx, the body parses as JSON\<close>
| OkBadJson                         \<comment> \<open>2xx, the body does not parse\<close>

datatype update_request =
  UpdOtherMethod
| UpdNoBody                         \<comment> \<open>destructuring \<^verbatim>\<open>req.body\<close> throws\<close>
| UpdPost "TreasureData list option"  \<comment> \<open>\<open>None\<close>: \<^verbatim>\<open>treasures\<close> is not an array\<close>

record publish_env =
  now :: string
  localConfigPath :: string         \<comment> \<open>\<^verbatim>\<open>path.join(process.cwd(), 'Web-config.JSON')\<close>\<close>
  localWriteOk :: bool
  serverAnswer :: remote_answer
  publicWriteOk :: bool

record config_files =
  localConfig :: "WebConfig option"     \<comment> \<open>the file at \<open>localConfigPath\<close>\<close>
  publicConfig :: "WebConfig option"    \<comment> \<open>\<^verbatim>\<open>public/Web-config.JSON\<close> in the working directory\<close>

record UpdateConfigResponse =
  success_upd :: bool
  error_upd :: "string option"
  configPath :: "string option"
  treasureCount_upd :: "nat option"

definition makeWebConfig :: "string \<Rightarrow> TreasureData list \<Rightarrow> WebConfig" where
  "makeWebConfig time ts = \<lparr> images = ts, lastUpdated = time, totalTreasures = length ts \<rparr>"

text \<open>The result: status and body, the files afterwards, the configurations posted to the
  remote endpoint, and \<^verbatim>\<open>serverUpdateSuccess\<close> (which the handler computes and only logs).\<close>

definition updateWebConfigHandler ::
  "publish_env \<Rightarrow> config_files \<Rightarrow> update_request
     \<Rightarrow> (nat \<times> UpdateConfigResponse) \<times> config_files \<times> WebConfig list \<times> bool" where
  "updateWebConfigHandler env files req =
     (case req of
        UpdOtherMethod \<Rightarrow>
          ((405, \<lparr> success_upd = False, error_upd = Some ''Method not allowed'',
                   configPath = None, treasureCount_upd = None \<rparr>), files, [], False)
      | UpdNoBody \<Rightarrow>
          ((500, \<lparr> success_upd = False,
                   error_upd = Some ''Failed to update Web-config.JSON. Please try again.'',
                   configPath = None, treasureCount_upd = None \<rparr>), files, [], False)
      | UpdPost None \<Rightarrow>
          ((400, \<lparr> success_upd = False, error_upd = Some ''Invalid treasures data'',
                   configPath = None, treasureCount_upd = None \<rparr>), files, [], False)
      | UpdPost (Some ts) \<Rightarrow>
          (let webConfig = makeWebConfig (now env) ts;
               files1 = (if localWriteOk env then files\<lparr> localConfig := Some webConfig \<rparr>
                         else files);
               serverUpdateSuccess = (serverAnswer env = OkJson);
               files2 = (if publicWriteOk env then files1\<lparr> publicConfig := Some webConfig \<rparr>
                         else files1)
           in ((200, \<lparr> success_upd = True, error_upd = None,
                       configPath = Some (localConfigPath env),
                       treasureCount_upd = Some (length ts) \<rparr>),
               files2, [webConfig], serverUpdateSuccess)))"

section \<open>The delete endpoint\<close>

text \<open>
  The handler of \<^verbatim>\<open>/api/delete-treasure\<close>. It talks to the remote server three times:
  it fetches the current configuration, asks for the image to be deleted, and posts the
  configuration without the deleted treasure. The three answers and the clock are inputs;
  the result is the handler's answer and the requests it sent, in order.
\<close>

datatype delete_request =
  DelOtherMethod
| DelNoBody                         \<comment> \<open>destructuring \<^verbatim>\<open>req.body\<close> throws; the text of the exception,
                                        appended to the error message, is left out\<close>
| DelPost "string option" "string option"   \<comment> \<open>\<^verbatim>\<open>imageName\<close>, \<^verbatim>\<open>fileName\<close>\<close>

datatype config_fetch =
  FetchFails                        \<comment> \<open>the request throws, or the body does not parse or is \<^verbatim>\<open>null\<close>\<close>
| FetchNotOk
| FetchOk "TreasureData list option"  \<comment> \<open>\<^verbatim>\<open>configData.images\<close>\<close>

record delete_env =
  configFetch :: config_fetch
  deleteAnswer :: remote_answer
  configAnswer :: remote_answer
  now_del :: string

datatype remote_request =
  GetConfig
| DeleteImage string
| UploadWebConfig WebConfig

record DeleteTreasureResponse =
  success_del :: bool
  error_del :: "string option"
  message :: "string option"
  imageDeleted :: "bool option"
  configUpdated :: "bool option"
  treasureRemoved :: "string option"

definition currentTreasuresOf :: "config_fetch \<Rightarrow> TreasureData list" where
  "currentTreasuresOf f = (case f of FetchOk (Some ts) \<Rightarrow> ts | _ \<Rightarrow> [])"

definition removeTreasure :: "string \<Rightarrow> TreasureData list \<Rightarrow> TreasureData list" where
  "removeTreasure name ts = filter (\<lambda>t. imageName t \<noteq> name) ts"

definition deleteMessage :: "bool \<Rightarrow> bool \<Rightarrow> string" where
  "deleteMessage imageDeleteSuccess configUpdateSuccess =
     ''Treasure deletion: Image '' @ (if imageDeleteSuccess then ''deleted'' else ''failed'')
       @ '', Config '' @ (if configUpdateSuccess then ''updated'' else ''failed'')"

definition deleteTreasureHandler ::
  "app_config \<Rightarrow> delete_env \<Rightarrow> delete_request
     \<Rightarrow> (nat \<times> DeleteTreasureResponse) \<times> remote_request list" where
  "deleteTreasureHandler cfg env req =
     (case req of
        DelOtherMethod \<Rightarrow>
          ((405, \<lparr> success_del = False, error_del = Some ''Method not allowed'',
                   message = None, imageDeleted = None, configUpdated = None,
                   treasureRemoved = None \<rparr>), [])
      | DelNoBody \<Rightarrow>
          ((500, \<lparr> success_del = False, error_del = Some ''Failed to delete treasure: '',
                   message = None, imageDeleted = None, configUpdated = None,
                   treasureRemoved = None \<rparr>), [])
      | DelPost nameField fileField \<Rightarrow>
          (if strOr nameField [] = [] \<or> strOr fileField [] = [] then
             ((400, \<lparr> success_del = False, error_del = Some ''Missing imageName or fileName'',
                      message = None, imageDeleted = None, configUpdated = None,
                      treasureRemoved = None \<rparr>), [])
           else
             (let name = strOr nameField [];
                  file = strOr fileField [];
                  configured = (baseUrl cfg \<noteq> []);
                  currentTreasures = (if configured then currentTreasuresOf (configFetch env)
                                      else []);
                  imageDeleteSuccess = (configured \<and> deleteAnswer env = OkJson);
                  republish = (configured \<and> length currentTreasures > 0);
                  updatedTreasures = removeTreasure name currentTreasures;
                  updatedConfig = makeWebConfig (now_del env) updatedTreasures;
                  configUpdateSuccess =
                    (republish \<and> (configAnswer env = OkJson \<or> configAnswer env = OkBadJson))
              in ((200, \<lparr> success_del = True, error_del = None,
                          message = Some (deleteMessage imageDeleteSuccess configUpdateSuccess),
                          imageDeleted = Some imageDeleteSuccess,
                          configUpdated = Some configUpdateSuccess,
                          treasureRemoved = Some name \<rparr>),
                  (if configured then [GetConfig, DeleteImage file] else [])
                    @ (if republish then [UploadWebConfig updatedConfig] else [])))))"

section \<open>The team store adapter\<close>

text \<open>
  \<^verbatim>\<open>getAllTeams\<close> and the listener of \<^verbatim>\<open>subscribeToTeams\<close> in \<^verbatim>\<open>lib/firestore.ts\<close>. What the
  realtime database returns is a JavaScript value; an object is an association list of its
  own properties with distinct keys, and a property that is missing reads as \<open>None\<close>
  (\<^verbatim>\<open>undefined\<close>).
\<close>

datatype jsval =
  JNull
| JBool bool
| JNum real
| JStr string
| JArr "jsval list"
| JObj "(string \<times> jsval) list"

type_synonym team = "(string \<times> jsval) list"

text \<open>Truthiness, and the test \<^verbatim>\<open>v && typeof v === 'object'\<close>.\<close>

definition truthy :: "jsval option \<Rightarrow> bool" where
  "truthy v =
     (case v of
        None \<Rightarrow> False
      | Some JNull \<Rightarrow> False
      | Some (JBool b) \<Rightarrow> b
      | Some (JNum n) \<Rightarrow> n \<noteq> 0
      | Some (JStr s) \<Rightarrow> s \<noteq> []
      | Some (JArr _) \<Rightarrow> True
      | Some (JObj _) \<Rightarrow> True)"

definition isObjectValue :: "jsval option \<Rightarrow> bool" where
  "isObjectValue v =
     (case v of Some (JArr _) \<Rightarrow> True | Some (JObj _) \<Rightarrow> True | _ \<Rightarrow> False)"

text \<open>\<^verbatim>\<open>v || d\<close>.\<close>

definition orDefault :: "jsval option \<Rightarrow> jsval \<Rightarrow> jsval" where
  "orDefault v d = (case v of None \<Rightarrow> d | Some w \<Rightarrow> if truthy (Some w) then w else d)"

definition potentialSessionFields :: "string list" where
  "potentialSessionFields =
     [''currentClueNumber'', ''cluesCompleted'', ''gameStarted'', ''started'', ''status'']"

definition defaultSession :: jsval where
  "defaultSession =
     JObj [(''cluesCompleted'', JNum 0), (''currentClueNumber'', JNum 0),
           (''started'', JBool False), (''status'', JStr ''not_started'')]"

text \<open>The loop over \<^verbatim>\<open>potentialSessionFields\<close>: the fields of the team node that are not
  \<^verbatim>\<open>undefined\<close>, in the order of the list.\<close>

definition foundFields :: "team \<Rightarrow> (string \<times> jsval) list" where
  "foundFields rawTeamData =
     List.map_filter (\<lambda>field. map_option (Pair field) (map_of rawTeamData field))
       potentialSessionFields"

text \<open>The value assigned to \<^verbatim>\<open>teamData.session\<close>.\<close>

definition sessionFor :: "team \<Rightarrow> jsval" where
  "sessionFor rawTeamData =
     (case map_of rawTeamData ''session'' of
        Some (JObj s) \<Rightarrow> JObj s
      | Some (JArr s) \<Rightarrow> JArr s
      | _ \<Rightarrow>
          (case map_of rawTeamData ''Session'' of
             Some (JObj s) \<Rightarrow> JObj s
           | Some (JArr s) \<Rightarrow> JArr s
           | _ \<Rightarrow>
               (if foundFields rawTeamData \<noteq> [] then JObj (foundFields rawTeamData)
                else defaultSession)))"

text \<open>The body of the loop for one valid team node: a copy of the node with \<^verbatim>\<open>uid\<close>,
  \<^verbatim>\<open>physicalScore\<close>, \<^verbatim>\<open>physicalScoreComment\<close> and \<^verbatim>\<open>session\<close> assigned in this order.
  The body is the same in \<^verbatim>\<open>getAllTeams\<close> and in the listener.\<close>

definition processTeam :: "string \<Rightarrow> team \<Rightarrow> team" where
  "processTeam uid rawTeamData =
     (let t1 = AList.update ''uid'' (JStr uid) rawTeamData;
          t2 = AList.update ''physicalScore''
                 (orDefault (map_of t1 ''physicalScore'') (JNum 0)) t1;
          t3 = AList.update ''physicalScoreComment''
                 (orDefault (map_of t2 ''physicalScoreComment'') (JStr [])) t2
      in AList.update ''session'' (sessionFor rawTeamData) t3)"

text \<open>\<^verbatim>\<open>allData[uid] && typeof allData[uid] === 'object' && allData[uid].teamName\<close>. An array
  has no property \<^verbatim>\<open>teamName\<close>, so only objects pass.\<close>

definition isTeamNode :: "jsval \<Rightarrow> bool" where
  "isTeamNode node =
     (case node of JObj kvs \<Rightarrow> truthy (map_of kvs ''teamName'') | _ \<Rightarrow> False)"

fun collectTeams :: "(string \<times> jsval) list \<Rightarrow> team list" where
  "collectTeams [] = []"
| "collectTeams ((uid, node) # rest) =
     (case node of
        JObj kvs \<Rightarrow>
          (if isTeamNode node then processTeam uid kvs # collectTeams rest
           else collectTeams rest)
      | _ \<Rightarrow> collectTeams rest)"

text \<open>\<^verbatim>\<open>teamsArray.sort((a, b) => a.teamNumber - b.teamNumber)\<close>. The difference is a number
  when both team numbers are numbers (\<^verbatim>\<open>null\<close> and booleans convert to 0 and 1), and is
  \<^verbatim>\<open>NaN\<close>, which the sort reads as 0, when one of them is missing; the \<^verbatim>\<open>Team\<close> interface
  declares \<^verbatim>\<open>teamNumber\<close> a number, and a string or object there is read as \<^verbatim>\<open>NaN\<close> too.
  The sort is stable; an insertion sort gives its result whenever the comparator is
  consistent. So the order of the modelled result is the order of the source when every
  \<^verbatim>\<open>teamNumber\<close> is a number, \<^verbatim>\<open>null\<close> or a boolean; with a string (which JavaScript would
  convert) or a missing number among them the order may differ, the teams returned do not.\<close>

definition teamNumberOf :: "team \<Rightarrow> real option" where
  "teamNumberOf t =
     (case map_of t ''teamNumber'' of
        Some (JNum n) \<Rightarrow> Some n
      | Some JNull \<Rightarrow> Some 0
      | Some (JBool b) \<Rightarrow> Some (if b then 1 else 0)
      | _ \<Rightarrow> None)"

definition compareTeams :: "team \<Rightarrow> team \<Rightarrow> real" where
  "compareTeams a b =
     (case (teamNumberOf a, teamNumberOf b) of
        (Some m, Some n) \<Rightarrow> m - n
      | _ \<Rightarrow> 0)"

fun insertTeam :: "team \<Rightarrow> team list \<Rightarrow> team list" where
  "insertTeam t [] = [t]"
| "insertTeam t (u # us) =
     (if compareTeams t u > 0 then u # insertTeam t us else t # u # us)"

definition sortTeams :: "team list \<Rightarrow> team list" where
  "sortTeams ts = foldr insertTeam ts []"

text \<open>\<^verbatim>\<open>getAllTeams\<close>: \<open>authenticated\<close> tells whether \<^verbatim>\<open>ensureAuth\<close> returns (when it throws,
  the \<^verbatim>\<open>catch\<close> returns the empty list); the snapshot is \<open>None\<close> when it does not exist.\<close>

definition getAllTeams :: "bool \<Rightarrow> (string \<times> jsval) list option \<Rightarrow> team list" where
  "getAllTeams authenticated snapshot =
     (if \<not> authenticated then []
      else case snapshot of None \<Rightarrow> [] | Some allData \<Rightarrow> sortTeams (collectTeams allData))"

text \<open>\<^verbatim>\<open>subscribeToTeams\<close>: what the listener passes to the callback on each event.\<close>

datatype listener_event =
  ListenerError
| Snapshot "(string \<times> jsval) list option"

definition subscribeToTeams :: "listener_event \<Rightarrow> team list" where
  "subscribeToTeams ev =
     (case ev of
        ListenerError \<Rightarrow> []
      | Snapshot None \<Rightarrow> []
      | Snapshot (Some allData) \<Rightarrow> sortTeams (collectTeams allData))"

section \<open>The page's effect on a step change\<close>

text \<open>
  The page registers \<^verbatim>\<open>useEffect(() => { requestGPSPermission(); loadExistingTreasures(); ... },
  [cameraStream, currentStep])\<close>: React runs this effect when the component mounts and
  again after every render in which the step (or the camera stream, which is not part of
  the modelled state) has changed. So every handler above that changes the step is followed
  by it. What the browser's geolocation gives and what the server answers to
  \<^verbatim>\<open>GET {baseUrl}/config\<close> are inputs.
\<close>

datatype gps_outcome =
  NoGeolocation                     \<comment> \<open>\<^verbatim>\<open>'geolocation' in navigator\<close> is false\<close>
| PositionDenied                    \<comment> \<open>\<^verbatim>\<open>getCurrentPosition\<close> rejects or times out\<close>
| Position GPSCoordinates

text \<open>\<^verbatim>\<open>requestGPSPermission\<close>. Every branch also sets \<^verbatim>\<open>gpsPermission\<close>, which only enables
  the start button of the setup step and is not part of the modelled state.\<close>

definition requestGPSPermission :: "gps_outcome \<Rightarrow> page_state \<Rightarrow> page_state" where
  "requestGPSPermission g st =
     (case g of
        NoGeolocation \<Rightarrow> st
      | PositionDenied \<Rightarrow> st
      | Position p \<Rightarrow> st\<lparr> currentLocation := Some p \<rparr>)"

text \<open>\<^verbatim>\<open>loadExistingTreasures\<close>: with a configured server and a 2xx answer, the list becomes
  \<^verbatim>\<open>data.images || []\<close> and the count \<^verbatim>\<open>data.images?.length || 0\<close>; in every other case
  ("If server fails, start fresh") the list becomes empty and the count 0.\<close>

definition loadExistingTreasures :: "app_config \<Rightarrow> config_fetch \<Rightarrow> page_state \<Rightarrow> page_state" where
  "loadExistingTreasures cfg f st =
     (if baseUrl cfg \<noteq> [] then
        (case f of
           FetchOk (Some ts) \<Rightarrow> st\<lparr> treasures := ts, treasureCount := length ts \<rparr>
         | FetchOk None \<Rightarrow> st\<lparr> treasures := [], treasureCount := 0 \<rparr>
         | FetchNotOk \<Rightarrow> st\<lparr> treasures := [], treasureCount := 0 \<rparr>
         | FetchFails \<Rightarrow> st\<lparr> treasures := [], treasureCount := 0 \<rparr>)
      else st\<lparr> treasures := [], treasureCount := 0 \<rparr>)"

text \<open>The body of the effect. The two calls are asynchronous and write disjoint parts of
  the state, so the order in which they settle does not matter.\<close>

definition stepEffect ::
  "app_config \<Rightarrow> gps_outcome \<Rightarrow> config_fetch \<Rightarrow> page_state \<Rightarrow> page_state" where
  "stepEffect cfg g f st = loadExistingTreasures cfg f (requestGPSPermission g st)"

text \<open>The state once the effect has settled, for a handler that was entered in the step
  \<open>previousStep\<close> and ended in the state \<open>st\<close>.\<close>

definition afterStepChange ::
  "app_config \<Rightarrow> gps_outcome \<Rightarrow> config_fetch \<Rightarrow> PageStep \<Rightarrow> page_state \<Rightarrow> page_state" where
  "afterStepChange cfg g f previousStep st =
     (if currentStep st \<noteq> previousStep then stepEffect cfg g f st else st)"

section \<open>The page and the publisher together\<close>

text \<open>The page reaches the publisher only through its requests to
  \<^verbatim>\<open>/api/update-web-config\<close>, whose body is \<^verbatim>\<open>{ treasures: newTreasures }\<close>. Running the
  publisher on each such request, in order, gives the configuration files after a handler
  of the page has finished.\<close>

definition publishEffects :: "publish_env \<Rightarrow> config_files \<Rightarrow> effect list \<Rightarrow> config_files" where
  "publishEffects env files efs =
     foldl (\<lambda>fs e. case e of
                     UpdateWebConfigRequest ts \<Rightarrow>
                       fst (snd (updateWebConfigHandler env fs (UpdPost (Some ts))))
                   | _ \<Rightarrow> fs)
       files efs"

section \<open>Worked inputs\<close>

text \<open>Concrete inputs on which the properties below are evaluated.\<close>

definition exampleForm :: form_fields where
  "exampleForm =
     \<lparr> image_field = Some ''temp/upload_1.png'', imageName_field = Some ''Light house'',
       latitude_field = None, longitude_field = None \<rparr>"

definition exampleOutput :: "nat \<Rightarrow> validator_outcome" where
  "exampleOutput n = ExecOutput (''Image quality score: '' @ natToString n) []"

definition passingResult :: ValidationResult where
  "passingResult = \<lparr> success = True, score = Some 82, error = None, uploadUrl = None \<rparr>"

definition exampleState :: page_state where
  "exampleState =
     (initialState config)
       \<lparr> currentStep := Crop, imageName_st := ''Light house'',
         capturedImage := Some ''data:image/png;base64,iVBORw0KGgo='' \<rparr>"

definition exampleTreasure :: "string \<Rightarrow> nat \<Rightarrow> TreasureData" where
  "exampleTreasure name i =
     \<lparr> imageName = ''clue_'' @ natToString i @ ''_'' @ name,
       fileName = name @ ''.png'',
       physicalSizeInMeters = 0.15,
       clueIndex = i,
       clueName = name,
       spawnOffset = (0, 0, 0),
       spawnRotation = (0, 0, 0),
       clueText = ''Find the light'',
       latitude = 0,
       longitude = 0,
       hasPhysicalGame = False,
       physicalGameInstruction = [],
       physicalGameSecretCode = [] \<rparr>"

definition exampleTeamNode :: team where
  "exampleTeamNode =
     [(''teamName'', JStr ''Falcons''), (''teamNumber'', JNum 7), (''score'', JNum 120)]"

definition exampleFiles :: config_files where
  "exampleFiles =
     \<lparr> localConfig = Some (makeWebConfig ''2025-01-25T09:00:00.000Z'' [exampleTreasure ''a'' 0]),
       publicConfig = Some (makeWebConfig ''2025-01-25T09:00:00.000Z'' [exampleTreasure ''a'' 0]) \<rparr>"

definition exampleEnv :: publish_env where
  "exampleEnv =
     \<lparr> now = ''2025-01-25T10:00:00.000Z'', localConfigPath = ''/app/Web-config.JSON'',
       localWriteOk = True, serverAnswer = OkJson,
       publicWriteOk = True \<rparr>"

text \<open>A session that has saved one treasure and is validating the next capture, and the
  rejection of that capture at the score 40 while the remote server cannot be reached.\<close>

definition sessionState :: page_state where
  "sessionState =
     exampleState\<lparr> currentStep := Processing, treasures := [exampleTreasure ''a'' 0],
                   treasureCount := 1 \<rparr>"

definition rejectedRun :: "page_state \<times> effect list" where
  "rejectedRun =
     validateAndUploadImage (\<lambda>r. ''0'') config
       (Answered (snd (fst (validateHandler config (Post exampleForm) (exampleOutput 40)
                              UploadThrows))))
       sessionState ''data:image/png;base64,AAAA'' ''Light house''"

section \<open>Auxiliary facts\<close>

lemmas char_class_defs =
  isAlnum_def isDigit_def isSpace_def isScoreSep_def lowerChars_def upperChars_def digitChars_def
  toLowerCase_def toLowerChar_def

lemma extractScore_exampleOutput_82: "extractScore (exampleOutput 82) = 82"
  by (simp add: exampleOutput_def extractScore_def orElse_def scoreMatchHere_def
      char_class_defs parseInt_def digitValue_def Let_def)

lemma extractScore_exampleOutput_75: "extractScore (exampleOutput 75) = 75"
  by (simp add: exampleOutput_def extractScore_def orElse_def scoreMatchHere_def
      char_class_defs parseInt_def digitValue_def Let_def)

lemma extractScore_exampleOutput_40: "extractScore (exampleOutput 40) = 40"
  by (simp add: exampleOutput_def extractScore_def orElse_def scoreMatchHere_def
      char_class_defs parseInt_def digitValue_def Let_def)

lemma accepted_passingResult: "accepted config passingResult"
  by (simp add: accepted_def passingResult_def config_def)

lemma validateHandler_valid_post:
  assumes "image_field f \<noteq> None" and "imageName_field f = Some label" and "label \<noteq> []"
  shows "fst (validateHandler cfg (Post f) v u) =
           (200, \<lparr> success = (minValidationScore cfg \<le> extractScore v),
                   score = Some (extractScore v),
                   error = (if extractScore v < minValidationScore cfg
                            then Some (belowThresholdMessage cfg (extractScore v)) else None),
                   uploadUrl = (if minValidationScore cfg \<le> extractScore v
                                   \<and> uploadedUrl cfg label u \<noteq> []
                                then Some (uploadedUrl cfg label u) else None) \<rparr>)"
  using assms by (simp add: validateHandler_def strOr_def Let_def)

lemma validateHandler_uploads:
  assumes "image_field f \<noteq> None" and "imageName_field f = Some label" and "label \<noteq> []"
    and "minValidationScore cfg \<le> extractScore v"
  shows "snd (validateHandler cfg (Post f) v u) = [uploadRequest f label (extractScore v)]"
  using assms by (simp add: validateHandler_def strOr_def Let_def)

lemma validateHandler_success_iff:
  "success (snd (fst (validateHandler cfg req v u)))
     \<longrightarrow> minValidationScore cfg \<le> extractScore v"
  by (cases req) (simp_all add: validateHandler_def Let_def)

lemma validateHandler_no_upload_below:
  assumes "extractScore v < minValidationScore cfg"
  shows "snd (validateHandler cfg req v u) = []"
  using assms by (cases req) (simp_all add: validateHandler_def Let_def)

lemma validateAndUploadImage_accepted:
  assumes "accepted cfg result"
  shows "validateAndUploadImage numToString cfg (Answered result) st imageData name =
           (st\<lparr> validationScore := score result,
                currentTreasure := Some (newPartialTreasure st name),
                currentStep := ClueBuilder,
                isProcessing := False \<rparr>,
            [ValidateRequest (validationForm numToString st name)])"
  using assms by (simp add: validateAndUploadImage_def Let_def)

lemma validateAndUploadImage_rejected:
  assumes "\<not> accepted cfg result"
  shows "validateAndUploadImage numToString cfg (Answered result) st imageData name =
           (st\<lparr> currentStep := Capture, isProcessing := False \<rparr>,
            [ValidateRequest (validationForm numToString st name),
             Alert (validationFailedMessage result)])"
  using assms by (simp add: validateAndUploadImage_def Let_def)

lemma advance_iff_above_threshold:
  assumes "image_field f \<noteq> None" and "imageName_field f = Some label" and "label \<noteq> []"
  shows "currentStep (fst (validateAndUploadImage numToString cfg
             (Answered (snd (fst (validateHandler cfg (Post f) v u)))) st imageData name))
           = (if minValidationScore cfg < extractScore v then ClueBuilder else Capture)"
  by (auto simp: validateHandler_valid_post [OF assms] validateAndUploadImage_def accepted_def
      Let_def)

lemma resetForNextTreasure_treasures [simp]:
  "treasures (resetForNextTreasure st) = treasures st"
  by (simp add: resetForNextTreasure_def)

lemma saveClueAndContinue_appends:
  assumes "currentTreasure st = Some p" and "trim (clueText_st st) \<noteq> []"
  shows "treasures (fst (saveClueAndContinue continueHiding st))
           = treasures st @ [completeTreasure st p]"
  using assms by (simp add: saveClueAndContinue_def Let_def)

lemma saveClueAndContinue_cases:
  "treasures (fst (saveClueAndContinue continueHiding st)) = treasures st
   \<or> (\<exists>p. currentTreasure st = Some p
          \<and> treasures (fst (saveClueAndContinue continueHiding st))
              = treasures st @ [completeTreasure st p])"
  by (cases "currentTreasure st") (simp_all add: saveClueAndContinue_def Let_def)

lemma trim_all_space:
  assumes "list_all isSpace s"
  shows "trim s = []"
proof -
  have "dropWhile isSpace s = []"
    using assms by (simp add: list_all_iff)
  then show ?thesis by (simp add: trim_def del: dropWhile_eq_Nil_conv)
qed

section \<open>The validation threshold\<close>

text \<open>
  \<^bold>\<open>C1.\<close> The claim: for every validator score \<open>s\<close> in \<open>0..100\<close> the workflow goes from
  validating to the clue builder if and only if \<open>s \<ge> minValidationScore\<close>, and the score equal
  to the threshold passes. The endpoint compares with \<open>\<ge>\<close>, the page with \<open>>\<close>
  (\<open>advance_iff_above_threshold\<close>). At the score 75 with the configured threshold 75 the
  endpoint reports success and uploads the image as \<^verbatim>\<open>Light_house.png\<close>, and the page
  nevertheless returns to the capture step.
\<close>
theorem boundary_score_sent_back:
  "extractScore (exampleOutput 75) = minValidationScore config
   \<and> success (snd (fst (validateHandler config (Post exampleForm) (exampleOutput 75)
                         UploadOkText)))
   \<and> map filename (snd (validateHandler config (Post exampleForm) (exampleOutput 75)
                          UploadOkText)) = [''Light_house.png'']
   \<and> currentStep (fst (validateAndUploadImage (\<lambda>r. ''0'') config
        (Answered (snd (fst (validateHandler config (Post exampleForm) (exampleOutput 75)
                               UploadOkText))))
        exampleState ''data:image/png;base64,AAAA'' ''Light house'')) = Capture"
proof -
  have img: "image_field exampleForm \<noteq> None"
    by (simp add: exampleForm_def)
  have name: "imageName_field exampleForm = Some ''Light house''"
    by (simp add: exampleForm_def)
  have nonempty: "''Light house'' \<noteq> []"
    by simp
  have threshold: "minValidationScore config = 75"
    by (simp add: config_def)
  have ok: "success (snd (fst (validateHandler config (Post exampleForm) (exampleOutput 75)
                         UploadOkText)))"
    by (simp add: validateHandler_valid_post [OF img name nonempty] threshold
        extractScore_exampleOutput_75)
  have sent: "map filename (snd (validateHandler config (Post exampleForm) (exampleOutput 75)
                          UploadOkText)) = [''Light_house.png'']"
    using validateHandler_uploads [OF img name nonempty, of config "exampleOutput 75" UploadOkText]
    by (simp add: threshold extractScore_exampleOutput_75 uploadRequest_def imageFileName_def
        replaceNonAlnum_def isAlnum_def lowerChars_def upperChars_def digitChars_def)
  have returned: "currentStep (fst (validateAndUploadImage (\<lambda>r. ''0'') config
        (Answered (snd (fst (validateHandler config (Post exampleForm) (exampleOutput 75)
                               UploadOkText))))
        exampleState ''data:image/png;base64,AAAA'' ''Light house'')) = Capture"
    by (simp add: advance_iff_above_threshold [OF img name nonempty] threshold
        extractScore_exampleOutput_75)
  from ok sent returned show ?thesis
    by (simp add: threshold extractScore_exampleOutput_75)
qed

text \<open>
  The rejecting handler on its own, for every validator score below \<open>minValidationScore\<close>:
  whatever the request, the answer of the endpoint makes \<^verbatim>\<open>validateAndUploadImage\<close> set the
  step to capture; the handler leaves the list of treasures, the treasure count and the
  treasure being built as they are; it makes no request to the publisher, so the
  configuration files (and with them \<open>totalTreasures\<close>) are as before; and the endpoint
  uploads nothing.
\<close>
lemma rejection_handler_alone:
  assumes "extractScore v < minValidationScore cfg"
    and "result = snd (fst (validateHandler cfg req v u))"
    and "run = validateAndUploadImage numToString cfg (Answered result) st imageData name"
  shows "currentStep (fst run) = Capture
       \<and> treasures (fst run) = treasures st
       \<and> treasureCount (fst run) = treasureCount st
       \<and> currentTreasure (fst run) = currentTreasure st
       \<and> publishEffects env files (snd run) = files
       \<and> snd (validateHandler cfg req v u) = []"
proof -
  have "\<not> success result"
    using assms(1,2) validateHandler_success_iff [of cfg req v u] by auto
  then have "\<not> accepted cfg result"
    by (simp add: accepted_def)
  then have "run = (st\<lparr> currentStep := Capture, isProcessing := False \<rparr>,
                    [ValidateRequest (validationForm numToString st name),
                     Alert (validationFailedMessage result)])"
    unfolding assms(3) by (rule validateAndUploadImage_rejected)
  then show ?thesis
    using validateHandler_no_upload_below [OF assms(1)]
    by (simp add: publishEffects_def)
qed

text \<open>The effect of a step change replaces the list and the count by what the server
  holds, whatever they were.\<close>

lemma stepEffect_replaces_treasures:
  "treasures (stepEffect cfg g f st) = (if baseUrl cfg \<noteq> [] then currentTreasuresOf f else [])
   \<and> treasureCount (stepEffect cfg g f st)
       = length (if baseUrl cfg \<noteq> [] then currentTreasuresOf f else [])"
  by (simp add: stepEffect_def loadExistingTreasures_def currentTreasuresOf_def
      split: config_fetch.splits option.splits)

text \<open>
  \<^bold>\<open>C4.\<close> The claim: for every validator score below \<open>minValidationScore\<close> the workflow
  returns to the capture step, no record is appended to the session's list and the
  published \<open>totalTreasures\<close> is unchanged: the state is unchanged on rejection. The
  handler does this (\<open>rejection_handler_alone\<close>), and the published configuration is not
  touched. But the rejection changes the step, so React runs the effect whose dependencies
  are \<^verbatim>\<open>[cameraStream, currentStep]\<close>, and with it \<^verbatim>\<open>loadExistingTreasures\<close>, which the source
  introduces as "Load existing treasures on component mount"; the list and the count of the
  session are then replaced (\<open>stepEffect_replaces_treasures\<close>). Below, a session holds
  one saved treasure, the capture is rejected at the score 40 with the threshold 75, and
  the remote server cannot be reached: the handler ends in the capture step with the
  treasure still in the list, and once the effect has settled the list is empty and the
  count is 0.
\<close>
theorem rejection_reloads_treasures:
  "extractScore (exampleOutput 40) < minValidationScore config
   \<and> treasures sessionState = [exampleTreasure ''a'' 0]
   \<and> treasureCount sessionState = 1
   \<and> currentStep (fst rejectedRun) = Capture
   \<and> treasures (fst rejectedRun) = [exampleTreasure ''a'' 0]
   \<and> currentStep (afterStepChange config PositionDenied FetchFails Processing (fst rejectedRun))
       = Capture
   \<and> treasures (afterStepChange config PositionDenied FetchFails Processing (fst rejectedRun))
       = []
   \<and> treasureCount (afterStepChange config PositionDenied FetchFails Processing
                       (fst rejectedRun)) = 0"
proof -
  have low: "extractScore (exampleOutput 40) < minValidationScore config"
    by (simp add: extractScore_exampleOutput_40 config_def)
  have start: "treasures sessionState = [exampleTreasure ''a'' 0]"
    "treasureCount sessionState = 1" "currentStep sessionState = Processing"
    by (simp_all add: sessionState_def)
  have handler: "currentStep (fst rejectedRun) = Capture
                 \<and> treasures (fst rejectedRun) = treasures sessionState"
    unfolding rejectedRun_def
    using rejection_handler_alone [OF low refl refl, where req = "Post exampleForm"
        and u = UploadThrows and numToString = "\<lambda>r. ''0''" and st = sessionState
        and imageData = "''data:image/png;base64,AAAA''" and name = "''Light house''"]
    by simp
  have changed: "afterStepChange config PositionDenied FetchFails Processing (fst rejectedRun)
                   = stepEffect config PositionDenied FetchFails (fst rejectedRun)"
    using handler by (simp add: afterStepChange_def)
  have reloaded: "treasures (stepEffect config PositionDenied FetchFails (fst rejectedRun)) = []"
    "treasureCount (stepEffect config PositionDenied FetchFails (fst rejectedRun)) = 0"
    using stepEffect_replaces_treasures [of config PositionDenied FetchFails "fst rejectedRun"]
    by (simp_all add: currentTreasuresOf_def)
  have step: "currentStep (stepEffect config PositionDenied FetchFails (fst rejectedRun))
                = Capture"
    using handler
    by (simp add: stepEffect_def loadExistingTreasures_def requestGPSPermission_def config_def)
  from low start handler changed reloaded step show ?thesis
    by simp
qed

section \<open>Publishing\<close>

lemma publish_always_reports_success:
  "fst (updateWebConfigHandler env files (UpdPost (Some ts)))
     = (200, \<lparr> success_upd = True, error_upd = None, configPath = Some (localConfigPath env),
               treasureCount_upd = Some (length ts) \<rparr>)"
  by (simp add: updateWebConfigHandler_def Let_def)

lemma publish_local_write:
  "localConfig (fst (snd (updateWebConfigHandler env files (UpdPost (Some ts)))))
     = (if localWriteOk env then Some (makeWebConfig (now env) ts) else localConfig files)"
  by (simp add: updateWebConfigHandler_def Let_def)

text \<open>
  \<^bold>\<open>C2.\<close> The claim: the publisher reports success if and only if the local write (step 1)
  succeeds, and a failure of the remote push or of the mirrored copy neither aborts the
  operation nor undoes the local write. The handler answers a well-formed request with
  status 200 and \<^verbatim>\<open>success: true\<close> whatever the three steps did
  (\<open>publish_always_reports_success\<close>), although its own comment reads
  "Return success if at least local save worked". Below the local write fails: the local
  file still holds the old configuration with one treasure, the public copy holds the new
  one with two, and the answer is success with \<^verbatim>\<open>treasureCount\<close> 2.
\<close>
theorem publish_success_without_local_write:
  "updateWebConfigHandler (exampleEnv\<lparr> localWriteOk := False \<rparr>) exampleFiles
       (UpdPost (Some [exampleTreasure ''a'' 0, exampleTreasure ''b'' 1]))
     = ((200, \<lparr> success_upd = True, error_upd = None,
                configPath = Some ''/app/Web-config.JSON'',
                treasureCount_upd = Some 2 \<rparr>),
        \<lparr> localConfig = Some (makeWebConfig ''2025-01-25T09:00:00.000Z''
                                [exampleTreasure ''a'' 0]),
          publicConfig = Some (makeWebConfig ''2025-01-25T10:00:00.000Z''
                                 [exampleTreasure ''a'' 0, exampleTreasure ''b'' 1]) \<rparr>,
        [makeWebConfig ''2025-01-25T10:00:00.000Z''
           [exampleTreasure ''a'' 0, exampleTreasure ''b'' 1]],
        True)"
  by (simp add: updateWebConfigHandler_def exampleEnv_def exampleFiles_def Let_def)

section \<open>Validator failure\<close>

lemma takeWhile_digits_none:
  assumes "list_all (\<lambda>c. \<not> isDigit c) s"
  shows "takeWhile isDigit (dropWhile P (drop n s)) = []"
proof -
  have "set (dropWhile P (drop n s)) \<subseteq> set s"
    using set_dropWhileD in_set_dropD by fast
  then have "\<forall>c \<in> set (dropWhile P (drop n s)). \<not> isDigit c"
    using assms by (auto simp: list_all_iff)
  then show ?thesis
    by (cases "dropWhile P (drop n s)") (simp_all del: dropWhile_eq_Nil_conv)
qed

lemma scoreMatchHere_none:
  assumes "list_all (\<lambda>c. \<not> isDigit c) s"
  shows "scoreMatchHere s = None"
  using takeWhile_digits_none [OF assms, of isScoreSep 5]
  by (simp add: scoreMatchHere_def Let_def)

lemma scoreMatch_none:
  "list_all (\<lambda>c. \<not> isDigit c) s \<Longrightarrow> scoreMatch s = None"
proof (induction s)
  case Nil
  show ?case by simp
next
  case (Cons c cs)
  have "scoreMatchHere (c # cs) = None"
    by (rule scoreMatchHere_none [OF Cons.prems])
  moreover have "scoreMatch cs = None"
    using Cons by simp
  ultimately show ?case by simp
qed

lemma numberMatch_none:
  assumes "list_all (\<lambda>c. \<not> isDigit c) s"
  shows "numberMatch s = None"
  using takeWhile_digits_none [OF assms, of "\<lambda>c. \<not> isDigit c" 0]
  by (simp add: numberMatch_def Let_def)

lemma extractScore_unparsable:
  assumes "list_all (\<lambda>c. \<not> isDigit c) (out @ err)"
  shows "extractScore (ExecOutput out err) = 0"
proof -
  from assms have o: "list_all (\<lambda>c. \<not> isDigit c) out" and e: "list_all (\<lambda>c. \<not> isDigit c) err"
    by simp_all
  show ?thesis
    by (simp add: extractScore_def orElse_def scoreMatch_none [OF o] scoreMatch_none [OF e]
        numberMatch_none [OF o] numberMatch_none [OF e])
qed

text \<open>
  \<^bold>\<open>C3\<close>, as claimed: when the validator cannot be run, the endpoint does not report a
  passing score without a flag. It does: with the configured threshold 75 the answer to a
  failed invocation is success with the score 85, no error and no flag (the answer has no
  field for one), and the image is uploaded. The source sets the score 85 in its
  \<^verbatim>\<open>catch\<close> branch on purpose ("use a high score to allow upload").
\<close>
theorem validator_failure_passes_counterexample:
  "fst (validateHandler config (Post exampleForm) ExecFailed UploadOkText)
     = (200, \<lparr> success = True, score = Some 85, error = None,
               uploadUrl = Some ''https://13d6f2ae3427.ngrok-free.app/images/Light_house.png'' \<rparr>)"
  by (simp add: validateHandler_def exampleForm_def strOr_def extractScore_def config_def
      uploadedUrl_def imageFileName_def replaceNonAlnum_def isAlnum_def lowerChars_def
      upperChars_def digitChars_def Let_def)

text \<open>
  \<^bold>\<open>C3\<close>, amended. For a well-formed request: when the validator invocation fails, the
  endpoint substitutes the fixed score 85 and reports success exactly when
  \<open>minValidationScore \<le> 85\<close>; when the invocation returns and neither output stream contains
  a digit, so that no score can be parsed, the score is 0, the endpoint reports success
  exactly when \<open>minValidationScore = 0\<close>, and for a positive threshold it uploads nothing.
\<close>
theorem validator_failure_policy:
  assumes "image_field f \<noteq> None" and "imageName_field f = Some label" and "label \<noteq> []"
  shows "score (snd (fst (validateHandler cfg (Post f) ExecFailed u))) = Some 85
       \<and> (success (snd (fst (validateHandler cfg (Post f) ExecFailed u)))
            \<longleftrightarrow> minValidationScore cfg \<le> 85)
       \<and> (list_all (\<lambda>c. \<not> isDigit c) (out @ err) \<longrightarrow>
            score (snd (fst (validateHandler cfg (Post f) (ExecOutput out err) u))) = Some 0
          \<and> (success (snd (fst (validateHandler cfg (Post f) (ExecOutput out err) u)))
               \<longleftrightarrow> minValidationScore cfg = 0)
          \<and> (0 < minValidationScore cfg \<longrightarrow>
               snd (validateHandler cfg (Post f) (ExecOutput out err) u) = []))"
proof -
  have failed: "extractScore ExecFailed = 85"
    by (simp add: extractScore_def)
  have a: "score (snd (fst (validateHandler cfg (Post f) ExecFailed u))) = Some 85"
    by (simp add: validateHandler_valid_post [OF assms] failed)
  have b: "success (snd (fst (validateHandler cfg (Post f) ExecFailed u)))
            \<longleftrightarrow> minValidationScore cfg \<le> 85"
    by (simp add: validateHandler_valid_post [OF assms] failed)
  have c: "score (snd (fst (validateHandler cfg (Post f) (ExecOutput out err) u))) = Some 0
          \<and> (success (snd (fst (validateHandler cfg (Post f) (ExecOutput out err) u)))
               \<longleftrightarrow> minValidationScore cfg = 0)
          \<and> (0 < minValidationScore cfg \<longrightarrow>
               snd (validateHandler cfg (Post f) (ExecOutput out err) u) = [])"
    if "list_all (\<lambda>c. \<not> isDigit c) (out @ err)"
    using validateHandler_no_upload_below [of "ExecOutput out err" cfg "Post f" u]
    by (simp add: validateHandler_valid_post [OF assms] extractScore_unparsable [OF that])
  from a b c show ?thesis by blast
qed

text \<open>C3, amended, at the configured threshold 75: a failed invocation passes with 85; an
  output without digits gives the score 0, a failure, and no upload.\<close>
theorem validator_failure_policy_witness:
  "score (snd (fst (validateHandler config (Post exampleForm) ExecFailed UploadOkText))) = Some 85
   \<and> success (snd (fst (validateHandler config (Post exampleForm) ExecFailed UploadOkText)))
   \<and> list_all (\<lambda>c. \<not> isDigit c) (''usage: arcoreimg'' @ ''unknown flag'')
   \<and> score (snd (fst (validateHandler config (Post exampleForm)
                 (ExecOutput ''usage: arcoreimg'' ''unknown flag'') UploadOkText))) = Some 0
   \<and> \<not> success (snd (fst (validateHandler config (Post exampleForm)
                 (ExecOutput ''usage: arcoreimg'' ''unknown flag'') UploadOkText)))
   \<and> snd (validateHandler config (Post exampleForm)
                 (ExecOutput ''usage: arcoreimg'' ''unknown flag'') UploadOkText) = []"
proof -
  have img: "image_field exampleForm \<noteq> None"
    by (simp add: exampleForm_def)
  have name: "imageName_field exampleForm = Some ''Light house''"
    by (simp add: exampleForm_def)
  have nonempty: "''Light house'' \<noteq> []"
    by simp
  have nodigit: "list_all (\<lambda>c. \<not> isDigit c) (''usage: arcoreimg'' @ ''unknown flag'')"
    by (simp add: isDigit_def digitChars_def)
  have threshold: "minValidationScore config = 75"
    by (simp add: config_def)
  show ?thesis
    using nodigit threshold
      validator_failure_policy [OF img name nonempty, of config UploadOkText
        "''usage: arcoreimg''" "''unknown flag''"]
    by simp
qed

section \<open>Deletion\<close>

lemma removeTreasure_length:
  "length (removeTreasure name ts) + length (filter (\<lambda>t. imageName t = name) ts) = length ts"
  using sum_length_filter_compl [of "\<lambda>t. imageName t \<noteq> name" ts]
  by (simp add: removeTreasure_def)

text \<open>
  \<^bold>\<open>C5.\<close> When the server is configured, the request names a treasure and a file, the
  configuration fetched from the server holds the records \<open>ts\<close> and exactly one of them
  carries the requested \<open>imageName\<close>, the delete handler posts a configuration \<open>c\<close> whose
  \<open>images\<close> are one fewer than \<open>ts\<close>, whose \<open>totalTreasures\<close> is one less than the length of
  \<open>ts\<close>, and none of whose records carries that \<open>imageName\<close>.
\<close>
theorem delete_round_trip:
  assumes "baseUrl cfg \<noteq> []" and "name \<noteq> []" and "file \<noteq> []"
    and "configFetch env = FetchOk (Some ts)"
    and "length (filter (\<lambda>t. imageName t = name) ts) = 1"
  shows "\<exists>c. snd (deleteTreasureHandler cfg env (DelPost (Some name) (Some file)))
               = [GetConfig, DeleteImage file, UploadWebConfig c]
           \<and> length (images c) + 1 = length ts
           \<and> totalTreasures c + 1 = length ts
           \<and> (\<forall>t \<in> set (images c). imageName t \<noteq> name)"
proof -
  let ?c = "makeWebConfig (now_del env) (removeTreasure name ts)"
  have nonempty: "length ts > 0"
    using assms(5) by (cases ts) simp_all
  have sent: "snd (deleteTreasureHandler cfg env (DelPost (Some name) (Some file)))
                = [GetConfig, DeleteImage file, UploadWebConfig ?c]"
    using assms(1-4) nonempty
    by (simp add: deleteTreasureHandler_def strOr_def currentTreasuresOf_def Let_def)
  have len: "length (images ?c) + 1 = length ts"
    using removeTreasure_length [of name ts] assms(5) by (simp add: makeWebConfig_def)
  have total: "totalTreasures ?c + 1 = length ts"
    using len by (simp add: makeWebConfig_def)
  have gone: "\<forall>t \<in> set (images ?c). imageName t \<noteq> name"
    by (simp add: makeWebConfig_def removeTreasure_def)
  from sent len total gone show ?thesis by blast
qed

text \<open>C5 on a configuration of two treasures, deleting the first.\<close>
theorem delete_round_trip_witness:
  "\<exists>c. snd (deleteTreasureHandler config
              \<lparr> configFetch = FetchOk (Some [exampleTreasure ''a'' 0, exampleTreasure ''b'' 1]),
                deleteAnswer = OkJson, configAnswer = OkJson,
                now_del = ''2025-01-25T10:00:00.000Z'' \<rparr>
              (DelPost (Some ''clue_0_a'') (Some ''a.png'')))
          = [GetConfig, DeleteImage ''a.png'', UploadWebConfig c]
      \<and> length (images c) + 1 = 2 \<and> totalTreasures c + 1 = 2
      \<and> (\<forall>t \<in> set (images c). imageName t \<noteq> ''clue_0_a'')"
proof -
  let ?env = "\<lparr> configFetch = FetchOk (Some [exampleTreasure ''a'' 0, exampleTreasure ''b'' 1]),
                deleteAnswer = OkJson, configAnswer = OkJson,
                now_del = ''2025-01-25T10:00:00.000Z'' \<rparr>"
  have url: "baseUrl config \<noteq> []"
    by (simp add: config_def)
  have fetched: "configFetch ?env
                   = FetchOk (Some [exampleTreasure ''a'' 0, exampleTreasure ''b'' 1])"
    by simp
  have one: "length (filter (\<lambda>t. imageName t = ''clue_0_a'')
                       [exampleTreasure ''a'' 0, exampleTreasure ''b'' 1]) = 1"
    by (simp add: exampleTreasure_def digitChars_def)
  show ?thesis
    using delete_round_trip [OF url _ _ fetched one, of "''a.png''"] by simp
qed

section \<open>Physical challenge fields\<close>

text \<open>
  \<^bold>\<open>C6.\<close> \<^verbatim>\<open>saveClueAndContinue\<close> either leaves the list of treasures as it is or appends
  one record, and a record it appends with \<open>hasPhysicalGame\<close> false has an empty
  \<open>physicalGameInstruction\<close> and an empty \<open>physicalGameSecretCode\<close>. Hence, if every record
  of the list satisfies this before the call, every record satisfies it afterwards.
\<close>
theorem physical_fields_empty_without_game:
  "(treasures (fst (saveClueAndContinue continueHiding st)) = treasures st
    \<or> (\<exists>t. treasures (fst (saveClueAndContinue continueHiding st)) = treasures st @ [t]
           \<and> (\<not> hasPhysicalGame t
                \<longrightarrow> physicalGameInstruction t = [] \<and> physicalGameSecretCode t = [])))
   \<and> (list_all (\<lambda>t. \<not> hasPhysicalGame t
                       \<longrightarrow> physicalGameInstruction t = [] \<and> physicalGameSecretCode t = [])
         (treasures st)
       \<longrightarrow> list_all (\<lambda>t. \<not> hasPhysicalGame t
                       \<longrightarrow> physicalGameInstruction t = [] \<and> physicalGameSecretCode t = [])
         (treasures (fst (saveClueAndContinue continueHiding st))))"
proof -
  have inv: "\<not> hasPhysicalGame (completeTreasure st p)
               \<longrightarrow> physicalGameInstruction (completeTreasure st p) = []
                   \<and> physicalGameSecretCode (completeTreasure st p) = []" for p
    by (simp add: completeTreasure_def)
  from saveClueAndContinue_cases [of continueHiding st] show ?thesis
  proof
    assume "treasures (fst (saveClueAndContinue continueHiding st)) = treasures st"
    then show ?thesis by simp
  next
    assume "\<exists>p. currentTreasure st = Some p
          \<and> treasures (fst (saveClueAndContinue continueHiding st))
              = treasures st @ [completeTreasure st p]"
    then obtain p where
      app: "treasures (fst (saveClueAndContinue continueHiding st))
              = treasures st @ [completeTreasure st p]"
      by blast
    with inv [of p] show ?thesis by auto
  qed
qed

text \<open>C6 on a save without a physical game, while the instruction and the secret code typed
  earlier are still in the page's state: the saved record has both fields empty.\<close>
theorem physical_fields_empty_without_game_witness:
  "treasures (fst (saveClueAndContinue False
       (exampleState\<lparr> currentTreasure := Some (newPartialTreasure exampleState ''Light house''),
                      clueText_st := ''Find the light'', physicalInstruction := ''Jump'',
                      secretCode := ''LIFT1230'' \<rparr>)))
     = [exampleTreasure ''light_house'' 0\<lparr> fileName := ''Light house.png'',
                                            clueName := ''Light house'' \<rparr>]"
proof -
  let ?st = "exampleState\<lparr> currentTreasure := Some (newPartialTreasure exampleState ''Light house''),
                      clueText_st := ''Find the light'', physicalInstruction := ''Jump'',
                      secretCode := ''LIFT1230'' \<rparr>"
  have start: "treasures ?st = []"
    by (simp add: exampleState_def initialState_def)
  have game: "\<not> hasPhysicalGame_st ?st"
    by (simp add: exampleState_def initialState_def)
  have clue: "trim ''Find the light'' = ''Find the light''"
    by (simp add: trim_def isSpace_def)
  have appended: "treasures (fst (saveClueAndContinue False ?st))
                    = treasures ?st @ [completeTreasure ?st (newPartialTreasure exampleState ''Light house'')]"
    by (rule saveClueAndContinue_appends) (simp_all add: clue)
  have lower: "replaceSpaceRuns (toLowerCase ''Light house'') = ''light_house''"
    by (simp add: char_class_defs)
  have count: "treasureCount exampleState = 0" "currentLocation exampleState = None"
    by (simp_all add: exampleState_def initialState_def)
  have t: "completeTreasure ?st (newPartialTreasure exampleState ''Light house'')
             = exampleTreasure ''light_house'' 0\<lparr> fileName := ''Light house.png'',
                                                  clueName := ''Light house'' \<rparr>"
    using game clue lower count
    by (simp add: completeTreasure_def newPartialTreasure_def exampleTreasure_def
        recordFileName_def coordValue_def digitChars_def)
  show ?thesis
    using physical_fields_empty_without_game [of False ?st] appended start t
    by simp
qed

section \<open>The default session\<close>

lemma foundFields_empty:
  assumes "\<forall>field \<in> set potentialSessionFields. map_of rawTeamData field = None"
  shows "foundFields rawTeamData = []"
  using assms by (simp add: foundFields_def List.map_filter_def)

lemma sessionFor_default:
  assumes "\<not> isObjectValue (map_of rawTeamData ''session'')"
    and "\<not> isObjectValue (map_of rawTeamData ''Session'')"
    and "\<forall>field \<in> set potentialSessionFields. map_of rawTeamData field = None"
  shows "sessionFor rawTeamData = defaultSession"
  using assms(1,2) foundFields_empty [OF assms(3)]
  by (simp add: sessionFor_def isObjectValue_def split: option.splits jsval.splits)

lemma set_insertTeam: "set (insertTeam t ts) = insert t (set ts)"
  by (induction ts) auto

lemma set_sortTeams: "set (sortTeams ts) = set ts"
  by (induction ts) (simp_all add: sortTeams_def set_insertTeam)

lemma collectTeams_member:
  assumes "(uid, JObj rawTeamData) \<in> set allData" and "isTeamNode (JObj rawTeamData)"
  shows "processTeam uid rawTeamData \<in> set (collectTeams allData)"
  using assms
proof (induction allData rule: collectTeams.induct)
  case 1
  then show ?case by simp
next
  case (2 uid' node rest)
  then show ?case by (cases node) auto
qed

text \<open>
  \<^bold>\<open>C7.\<close> A valid team node with no object under \<^verbatim>\<open>session\<close> or \<^verbatim>\<open>Session\<close> and with none of
  the five session fields is returned, by \<^verbatim>\<open>getAllTeams\<close> and by the listener of
  \<^verbatim>\<open>subscribeToTeams\<close> alike, as a team with its \<open>uid\<close> and the session
  \<^verbatim>\<open>{cluesCompleted: 0, currentClueNumber: 0, started: false, status: 'not_started'}\<close>.
  Both functions are total: there is no error branch for a missing session.
\<close>
theorem missing_session_default:
  assumes "(uid, JObj rawTeamData) \<in> set allData"
    and "isTeamNode (JObj rawTeamData)"
    and "\<not> isObjectValue (map_of rawTeamData ''session'')"
    and "\<not> isObjectValue (map_of rawTeamData ''Session'')"
    and "\<forall>field \<in> set potentialSessionFields. map_of rawTeamData field = None"
  shows "\<exists>t. t \<in> set (getAllTeams True (Some allData))
           \<and> t \<in> set (subscribeToTeams (Snapshot (Some allData)))
           \<and> map_of t ''uid'' = Some (JStr uid)
           \<and> map_of t ''session''
               = Some (JObj [(''cluesCompleted'', JNum 0), (''currentClueNumber'', JNum 0),
                             (''started'', JBool False), (''status'', JStr ''not_started'')])"
proof -
  let ?t = "processTeam uid rawTeamData"
  have mem: "?t \<in> set (collectTeams allData)"
    by (rule collectTeams_member [OF assms(1,2)])
  have get: "?t \<in> set (getAllTeams True (Some allData))"
    using mem by (simp add: getAllTeams_def set_sortTeams)
  have sub: "?t \<in> set (subscribeToTeams (Snapshot (Some allData)))"
    using mem by (simp add: subscribeToTeams_def set_sortTeams)
  have uid: "map_of ?t ''uid'' = Some (JStr uid)"
    by (simp add: processTeam_def Let_def update_conv')
  have session: "map_of ?t ''session'' = Some defaultSession"
    using sessionFor_default [OF assms(3-5)]
    by (simp add: processTeam_def Let_def update_conv')
  from get sub uid session show ?thesis
    unfolding defaultSession_def by blast
qed

text \<open>C7 on a team node holding only a name, a number and a score.\<close>
theorem missing_session_default_witness:
  "\<exists>t. t \<in> set (getAllTeams True (Some [(''uid1'', JObj exampleTeamNode)]))
      \<and> t \<in> set (subscribeToTeams (Snapshot (Some [(''uid1'', JObj exampleTeamNode)])))
      \<and> map_of t ''uid'' = Some (JStr ''uid1'')
      \<and> map_of t ''session''
          = Some (JObj [(''cluesCompleted'', JNum 0), (''currentClueNumber'', JNum 0),
                        (''started'', JBool False), (''status'', JStr ''not_started'')])"
proof -
  have node: "(''uid1'', JObj exampleTeamNode) \<in> set [(''uid1'', JObj exampleTeamNode)]"
    by simp
  have team: "isTeamNode (JObj exampleTeamNode)"
    by (simp add: isTeamNode_def exampleTeamNode_def truthy_def)
  have lower: "\<not> isObjectValue (map_of exampleTeamNode ''session'')"
    by (simp add: exampleTeamNode_def isObjectValue_def)
  have upper: "\<not> isObjectValue (map_of exampleTeamNode ''Session'')"
    by (simp add: exampleTeamNode_def isObjectValue_def)
  have none: "\<forall>field \<in> set potentialSessionFields. map_of exampleTeamNode field = None"
    by (simp add: potentialSessionFields_def exampleTeamNode_def)
  show ?thesis
    using missing_session_default [OF node team lower upper none] by simp
qed

section \<open>The mandatory name\<close>

text \<open>
  \<^bold>\<open>C8.\<close> When the image name is empty or white space only, \<^verbatim>\<open>cropImage\<close> returns the state
  it was given (so no cropped image is stored and the step does not change) and does nothing
  but show the alert: no request for validation or upload is made.
\<close>
theorem crop_requires_name:
  assumes "list_all isSpace (imageName_st st)"
  shows "cropImage numToString cfg env api st
           = (st, [Alert ''Please enter a name for the treasure marker before cropping.''])"
  using trim_all_space [OF assms] by (simp add: cropImage_def)

text \<open>C8 on a name of two spaces, in a browser where cropping would otherwise succeed.\<close>
theorem crop_requires_name_witness:
  "list_all isSpace ''  ''
   \<and> cropImage (\<lambda>r. ''0'') config
        \<lparr> canvasAvailable = True, contextAvailable = True,
          imageLoad = Cropped ''data:image/png;base64,AAAA'' \<rparr>
        FetchThrows (exampleState\<lparr> imageName_st := ''  '' \<rparr>)
      = (exampleState\<lparr> imageName_st := ''  '' \<rparr>,
         [Alert ''Please enter a name for the treasure marker before cropping.''])"
proof -
  have blank: "list_all isSpace (imageName_st (exampleState\<lparr> imageName_st := ''  '' \<rparr>))"
    by (simp add: isSpace_def)
  show ?thesis
    using blank crop_requires_name [OF blank] by simp
qed

section \<open>Stored file names\<close>

lemma underscore_not_alnum: "\<not> isAlnum CHR ''_''"
  by (simp add: isAlnum_def lowerChars_def upperChars_def digitChars_def)

lemma replaceNonAlnum_fixed_iff:
  "replaceNonAlnum s = s \<longleftrightarrow> list_all (\<lambda>c. isAlnum c \<or> c = CHR ''_'') s"
  by (induction s) (auto simp: replaceNonAlnum_def)

text \<open>
  \<^bold>\<open>C9\<close>, as claimed: the name the endpoint stores and the \<open>fileName\<close> of the record coincide
  exactly when the label contains only letters and digits. For the label \<^verbatim>\<open>a_b\<close> they
  coincide, although the underscore is neither: an underscore is replaced by itself.
\<close>
theorem stored_file_names_counterexample:
  "imageFileName ''a_b'' = recordFileName ''a_b'' \<and> \<not> list_all isAlnum ''a_b''"
  by (simp add: imageFileName_def recordFileName_def replaceNonAlnum_def isAlnum_def
      lowerChars_def upperChars_def digitChars_def)

text \<open>
  \<^bold>\<open>C9\<close>, amended. For every non-empty label whose image passes: the endpoint uploads the
  image under the label with every character that is not a letter or digit replaced by an
  underscore, followed by \<^verbatim>\<open>.png\<close>; the record of the workflow has as \<open>fileName\<close> the
  unmodified label followed by \<^verbatim>\<open>.png\<close>; and the two names coincide exactly when the label
  contains only letters, digits and underscores.
\<close>
theorem stored_file_names:
  assumes "image_field f \<noteq> None" and "imageName_field f = Some label" and "label \<noteq> []"
    and "minValidationScore cfg \<le> extractScore v"
    and "accepted cfg result"
  shows "map filename (snd (validateHandler cfg (Post f) v u))
           = [map (\<lambda>c. if isAlnum c then c else CHR ''_'') label @ ''.png'']
       \<and> map_option (\<lambda>p. fileName (completeTreasure st2 p))
            (currentTreasure
               (fst (validateAndUploadImage numToString cfg (Answered result) st imageData label)))
           = Some (label @ ''.png'')
       \<and> (map (\<lambda>c. if isAlnum c then c else CHR ''_'') label @ ''.png'' = label @ ''.png''
            \<longleftrightarrow> list_all (\<lambda>c. isAlnum c \<or> c = CHR ''_'') label)"
proof -
  have up: "map filename (snd (validateHandler cfg (Post f) v u))
              = [map (\<lambda>c. if isAlnum c then c else CHR ''_'') label @ ''.png'']"
    using validateHandler_uploads [OF assms(1-4)]
    by (simp add: uploadRequest_def imageFileName_def replaceNonAlnum_def)
  have rec: "map_option (\<lambda>p. fileName (completeTreasure st2 p))
            (currentTreasure
               (fst (validateAndUploadImage numToString cfg (Answered result) st imageData label)))
           = Some (label @ ''.png'')"
    using validateAndUploadImage_accepted [OF assms(5)]
    by (simp add: completeTreasure_def newPartialTreasure_def recordFileName_def)
  have same: "map (\<lambda>c. if isAlnum c then c else CHR ''_'') label @ ''.png'' = label @ ''.png''
            \<longleftrightarrow> list_all (\<lambda>c. isAlnum c \<or> c = CHR ''_'') label"
    using replaceNonAlnum_fixed_iff [of label] by (simp add: replaceNonAlnum_def)
  from up rec same show ?thesis by blast
qed

text \<open>C9, amended, on the label \<^verbatim>\<open>Light house\<close>: stored as \<^verbatim>\<open>Light_house.png\<close>, recorded as
  \<^verbatim>\<open>Light house.png\<close>.\<close>
theorem stored_file_names_witness:
  "map filename (snd (validateHandler config (Post exampleForm) (exampleOutput 82) UploadOkText))
     = [''Light_house.png'']
   \<and> map_option (\<lambda>p. fileName (completeTreasure exampleState p))
        (currentTreasure
           (fst (validateAndUploadImage (\<lambda>r. ''0'') config (Answered passingResult) exampleState
                   ''data:image/png;base64,AAAA'' ''Light house'')))
       = Some ''Light house.png''
   \<and> \<not> list_all (\<lambda>c. isAlnum c \<or> c = CHR ''_'') ''Light house''"
proof -
  have img: "image_field exampleForm \<noteq> None"
    by (simp add: exampleForm_def)
  have name: "imageName_field exampleForm = Some ''Light house''"
    by (simp add: exampleForm_def)
  have nonempty: "''Light house'' \<noteq> []"
    by simp
  have passes: "minValidationScore config \<le> extractScore (exampleOutput 82)"
    by (simp add: extractScore_exampleOutput_82 config_def)
  show ?thesis
    using stored_file_names [OF img name nonempty passes accepted_passingResult,
        of UploadOkText exampleState "\<lambda>r. ''0''" exampleState "''data:image/png;base64,AAAA''"]
    by (simp add: isAlnum_def lowerChars_def upperChars_def digitChars_def)
qed

section \<open>A capture without a location\<close>

text \<open>
  \<^bold>\<open>C10.\<close> When no location has been obtained and the answer of the endpoint is accepted:
  the form the page posts carries the latitude and longitude \<^verbatim>\<open>'0'\<close>, the endpoint forwards
  them as \<^verbatim>\<open>'0'\<close> in its upload, the page moves on to the clue builder, and the record saved
  from there (once a clue text is entered) has latitude 0 and longitude 0.
\<close>
theorem no_location_zero_coordinates:
  assumes "currentLocation st = None" and "accepted cfg result" and "trim txt \<noteq> []"
  shows "\<exists>st' form t.
           validateAndUploadImage numToString cfg (Answered result) st imageData name
             = (st', [ValidateRequest form])
         \<and> latitude_form form = ''0'' \<and> longitude_form form = ''0''
         \<and> latitude_sent (uploadRequest
               \<lparr> image_field = Some path, imageName_field = Some (imageName_form form),
                 latitude_field = Some (latitude_form form),
                 longitude_field = Some (longitude_form form) \<rparr> name s) = ''0''
         \<and> longitude_sent (uploadRequest
               \<lparr> image_field = Some path, imageName_field = Some (imageName_form form),
                 latitude_field = Some (latitude_form form),
                 longitude_field = Some (longitude_form form) \<rparr> name s) = ''0''
         \<and> currentStep st' = ClueBuilder
         \<and> treasures (fst (saveClueAndContinue continueHiding (st'\<lparr> clueText_st := txt \<rparr>)))
             = treasures st @ [t]
         \<and> latitude t = 0 \<and> longitude t = 0"
proof -
  let ?st' = "st\<lparr> validationScore := score result,
                  currentTreasure := Some (newPartialTreasure st name),
                  currentStep := ClueBuilder, isProcessing := False \<rparr>"
  let ?form = "validationForm numToString st name"
  let ?t = "completeTreasure (?st'\<lparr> clueText_st := txt \<rparr>) (newPartialTreasure st name)"
  have run: "validateAndUploadImage numToString cfg (Answered result) st imageData name
               = (?st', [ValidateRequest ?form])"
    by (rule validateAndUploadImage_accepted [OF assms(2)])
  have form: "latitude_form ?form = ''0'' \<and> longitude_form ?form = ''0''"
    using assms(1) by (simp add: validationForm_def coordText_def)
  then have sent: "latitude_sent (uploadRequest
               \<lparr> image_field = Some path, imageName_field = Some (imageName_form ?form),
                 latitude_field = Some (latitude_form ?form),
                 longitude_field = Some (longitude_form ?form) \<rparr> name s) = ''0''
         \<and> longitude_sent (uploadRequest
               \<lparr> image_field = Some path, imageName_field = Some (imageName_form ?form),
                 latitude_field = Some (latitude_form ?form),
                 longitude_field = Some (longitude_form ?form) \<rparr> name s) = ''0''"
    by (simp add: uploadRequest_def strOr_def)
  have saved: "treasures (fst (saveClueAndContinue continueHiding (?st'\<lparr> clueText_st := txt \<rparr>)))
                 = treasures st @ [?t]"
    using assms(3) saveClueAndContinue_appends [of "?st'\<lparr> clueText_st := txt \<rparr>"
        "newPartialTreasure st name" continueHiding]
    by simp
  have zero: "latitude ?t = 0 \<and> longitude ?t = 0"
    using assms(1) by (simp add: completeTreasure_def newPartialTreasure_def coordValue_def)
  from run form sent saved zero show ?thesis by fastforce
qed

text \<open>C10 on the page's state before any location was obtained.\<close>
theorem no_location_zero_coordinates_witness:
  "currentLocation exampleState = None
   \<and> (\<exists>st' form t.
         validateAndUploadImage (\<lambda>r. ''0'') config (Answered passingResult) exampleState
             ''data:image/png;base64,AAAA'' ''Light house''
           = (st', [ValidateRequest form])
       \<and> latitude_form form = ''0'' \<and> longitude_form form = ''0''
       \<and> latitude_sent (uploadRequest
             \<lparr> image_field = Some ''temp/upload_1.png'',
               imageName_field = Some (imageName_form form),
               latitude_field = Some (latitude_form form),
               longitude_field = Some (longitude_form form) \<rparr> ''Light house'' 82) = ''0''
       \<and> longitude_sent (uploadRequest
             \<lparr> image_field = Some ''temp/upload_1.png'',
               imageName_field = Some (imageName_form form),
               latitude_field = Some (latitude_form form),
               longitude_field = Some (longitude_form form) \<rparr> ''Light house'' 82) = ''0''
       \<and> currentStep st' = ClueBuilder
       \<and> treasures (fst (saveClueAndContinue False (st'\<lparr> clueText_st := ''Find the light'' \<rparr>)))
           = treasures exampleState @ [t]
       \<and> latitude t = 0 \<and> longitude t = 0)"
proof -
  have nowhere: "currentLocation exampleState = None"
    by (simp add: exampleState_def initialState_def)
  have clue: "trim ''Find the light'' \<noteq> []"
    by (simp add: trim_def isSpace_def)
  show ?thesis
    using nowhere
      no_location_zero_coordinates [OF nowhere accepted_passingResult clue,
        where numToString = "\<lambda>r. ''0''" and imageData = "''data:image/png;base64,AAAA''"
        and name = "''Light house''" and path = "''temp/upload_1.png''" and s = 82
        and continueHiding = False]
    by simp
qed

end
